theory Spec2Isabelle
  imports Complex_Main "HOL-Library.AList" "HOL-Library.Char_ord" "HOL-Library.List_Lexorder"
begin

section \<open>Data model\<close>

text \<open>
  The development embeds the functions of \<^verbatim>\<open>heredity.py\<close>: \<^verbatim>\<open>load_data\<close>,
  \<^verbatim>\<open>powerset\<close>, \<^verbatim>\<open>joint_probability\<close>, \<^verbatim>\<open>update\<close>,
  \<^verbatim>\<open>normalize\<close> and the inference loop of \<^verbatim>\<open>main\<close>.

  Python floats are read as exact real numbers: every equation below is an equation of
  exact arithmetic, and says nothing about the rounding of IEEE doubles.

  The statements at module level between the functions (the two blocks headed
  \<^verbatim>\<open># Example usage\<close>) belong to no function and are not embedded; the end of the first
  block and the indentation of the loop of \<^verbatim>\<open>update\<close> keep the file from compiling as
  it stands, and the embedding follows the bodies of the functions as they are written.

  The number of copies of the gene is only ever one of the literals 2, 1 and 0 (they are the
  keys of the tables and the only values assigned to \<^verbatim>\<open>genes\<close>), so it is a
  three-valued type; the constructors are listed in the order of the dictionary keys.
\<close>

datatype gene_count = Two | One | Zero

text \<open>One entry of the \<^verbatim>\<open>people\<close> dictionary (built by \<^verbatim>\<open>load_data\<close>).\<close>

record person =
  name :: string
  mother :: "string option"
  father :: "string option"
  trait :: "bool option"

text \<open>
  A Python dictionary keeps its keys in insertion order and \<^verbatim>\<open>for person in people\<close>
  visits them in that order, so \<^verbatim>\<open>people\<close> is an association list; a dictionary has
  each key once (\<open>distinct (map fst people)\<close>), and then visiting the keys and looking each
  one up is visiting the entries.
\<close>

type_synonym people = "(string \<times> person) list"

text \<open>
  One entry of \<^verbatim>\<open>probabilities\<close>: the dictionary \<^verbatim>\<open>"gene"\<close> with the keys
  2, 1, 0 and the dictionary \<^verbatim>\<open>"trait"\<close> with the keys True, False. Both are created
  with exactly these keys and no key is ever added or removed.
\<close>

record distribution =
  gene_p :: "gene_count \<Rightarrow> real"
  trait_p :: "bool \<Rightarrow> real"

type_synonym probabilities = "(string \<times> distribution) list"

datatype error = ZeroDivisionError

section \<open>Probability tables\<close>

definition PROBS_gene :: "gene_count \<Rightarrow> real" where
  "PROBS_gene g = (case g of Two \<Rightarrow> 0.01 | One \<Rightarrow> 0.03 | Zero \<Rightarrow> 0.96)"

definition PROBS_trait :: "gene_count \<Rightarrow> bool \<Rightarrow> real" where
  "PROBS_trait g t =
     (case g of
        Two \<Rightarrow> (if t then 0.65 else 0.35)
      | One \<Rightarrow> (if t then 0.56 else 0.44)
      | Zero \<Rightarrow> (if t then 0.01 else 0.99))"

definition PROBS_mutation :: real where
  "PROBS_mutation = 0.01"

section \<open>Loading the family\<close>




section \<open>Enumerating subsets\<close>

text \<open>\<^verbatim>\<open>itertools.combinations(s, r)\<close>: the sublists of length \<open>r\<close>, in index order.\<close>

fun combinations :: "'a list \<Rightarrow> nat \<Rightarrow> 'a list list" where
  "combinations xs 0 = [[]]"
| "combinations [] (Suc r) = []"
| "combinations (x # xs) (Suc r) =
     map ((#) x) (combinations xs r) @ combinations xs (Suc r)"


definition powerset :: "('a set \<Rightarrow> 'a list) \<Rightarrow> 'a set \<Rightarrow> 'a set list" where
  "powerset to_list s =
     (let xs = to_list s
      in map set (concat (map (combinations xs) [0..<length xs + 1])))"

section \<open>The joint probability of one hypothesis\<close>

text \<open>
  \<^verbatim>\<open>mother in two_genes\<close> for an optional name: the sets hold names only, so
  \<^verbatim>\<open>None\<close> is in none of them.
\<close>

definition is_in :: "string option \<Rightarrow> string set \<Rightarrow> bool" where
  "is_in parent s = (case parent of None \<Rightarrow> False | Some n \<Rightarrow> n \<in> s)"

definition joint_probability ::
  "people \<Rightarrow> string set \<Rightarrow> string set \<Rightarrow> string set \<Rightarrow> real" where
  "joint_probability people one_gene two_genes have_trait =
     fold (\<lambda>(person, r) probability.
        let genes = (if person \<in> two_genes then Two
                     else if person \<in> one_gene then One
                     else Zero);
            has_trait = (person \<in> have_trait);
            gene_probability =
              (if mother r = None \<and> father r = None then PROBS_gene genes
               else
                 let pass_mother =
                       (if is_in (mother r) two_genes then 1 - PROBS_mutation
                        else if is_in (mother r) one_gene then 0.5
                        else PROBS_mutation);
                     pass_father =
                       (if is_in (father r) two_genes then 1 - PROBS_mutation
                        else if is_in (father r) one_gene then 0.5
                        else PROBS_mutation)
                 in (case genes of
                       Two \<Rightarrow> pass_mother * pass_father
                     | One \<Rightarrow> pass_mother * (1 - pass_father) + (1 - pass_mother) * pass_father
                     | Zero \<Rightarrow> (1 - pass_mother) * (1 - pass_father)));
            trait_probability = PROBS_trait genes has_trait
        in probability * (gene_probability * trait_probability))
       people 1"

section \<open>Accumulating and normalising\<close>

text \<open>\<^verbatim>\<open>update\<close> visits every person of \<^verbatim>\<open>probabilities\<close> and adds \<open>p\<close> to two buckets.\<close>

definition update ::
  "probabilities \<Rightarrow> string set \<Rightarrow> string set \<Rightarrow> string set \<Rightarrow> real \<Rightarrow> probabilities" where
  "update probabilities one_gene two_genes have_trait p =
     map (\<lambda>(person, d).
        let genes = (if person \<in> two_genes then Two
                     else if person \<in> one_gene then One
                     else Zero);
            has_trait = (person \<in> have_trait)
        in (person,
            d\<lparr>gene_p := (gene_p d)(genes := gene_p d genes + p),
              trait_p := (trait_p d)(has_trait := trait_p d has_trait + p)\<rparr>))
       probabilities"

text \<open>
  \<^verbatim>\<open>sum(probabilities[person]["gene"].values())\<close> and the same for
  \<^verbatim>\<open>"trait"\<close>, in the order of the keys; then the body of the loop of
  \<^verbatim>\<open>normalize\<close> for one person. The sum is taken before the buckets are divided; Python's division raises \<^verbatim>\<open>ZeroDivisionError\<close> when the
  divisor is zero, also for floats.
\<close>

definition gene_sum :: "distribution \<Rightarrow> real" where
  "gene_sum d = gene_p d Two + gene_p d One + gene_p d Zero"

definition trait_sum :: "distribution \<Rightarrow> real" where
  "trait_sum d = trait_p d True + trait_p d False"

definition normalize_person :: "distribution \<Rightarrow> error + distribution" where
  "normalize_person d =
     (let gs = gene_sum d
      in if gs = 0 then Inl ZeroDivisionError
         else
           let d1 = d\<lparr>gene_p := (\<lambda>num_genes. gene_p d num_genes / gs)\<rparr>;
               ts = trait_sum d1
           in if ts = 0 then Inl ZeroDivisionError
              else Inr (d1\<lparr>trait_p := (\<lambda>has_trait. trait_p d1 has_trait / ts)\<rparr>))"

fun normalize :: "probabilities \<Rightarrow> error + probabilities" where
  "normalize [] = Inr []"
| "normalize ((person, d) # rest) =
     (case normalize_person d of
        Inl e \<Rightarrow> Inl e
      | Inr d' \<Rightarrow>
          (case normalize rest of
             Inl e \<Rightarrow> Inl e
           | Inr rest' \<Rightarrow> Inr ((person, d') # rest')))"

section \<open>The inference loop of main\<close>

text \<open>The zero-initialised accumulators, one per person.\<close>

definition zero_distribution :: distribution where
  "zero_distribution = \<lparr>gene_p = (\<lambda>_. 0), trait_p = (\<lambda>_. 0)\<rparr>"

definition init_probabilities :: "people \<Rightarrow> probabilities" where
  "init_probabilities people = map (\<lambda>(person, r). (person, zero_distribution)) people"

text \<open>
  \<^verbatim>\<open>fails_evidence\<close>: some person has a known trait that differs from the membership
  in \<^verbatim>\<open>have_trait\<close>.
\<close>

definition fails_evidence :: "people \<Rightarrow> string set \<Rightarrow> bool" where
  "fails_evidence people have_trait =
     list_ex (\<lambda>(person, r). trait r \<noteq> None \<and> trait r \<noteq> Some (person \<in> have_trait)) people"

text \<open>
  The three nested loops, as the list of the hypotheses for which the innermost body runs,
  in the order in which it runs. \<open>keep\<close> decides which trait sets pass the
  \<^verbatim>\<open>continue\<close>: in \<^verbatim>\<open>main\<close> those that do not fail the evidence.
\<close>

definition enumerate_hypotheses ::
  "(string set \<Rightarrow> string list) \<Rightarrow> string set \<Rightarrow> (string set \<Rightarrow> bool)
     \<Rightarrow> (string set \<times> string set \<times> string set) list" where
  "enumerate_hypotheses to_list names keep =
     concat (map (\<lambda>have_trait.
        if \<not> keep have_trait then []
        else concat (map (\<lambda>one_gene.
               map (\<lambda>two_genes. (one_gene, two_genes, have_trait))
                 (powerset to_list (names - one_gene)))
             (powerset to_list names)))
       (powerset to_list names))"

definition hypotheses ::
  "(string set \<Rightarrow> string list) \<Rightarrow> people \<Rightarrow> (string set \<times> string set \<times> string set) list" where
  "hypotheses to_list people =
     enumerate_hypotheses to_list (set (map fst people))
       (\<lambda>have_trait. \<not> fails_evidence people have_trait)"

text \<open>The body of the innermost loop: evaluate, then accumulate.\<close>

definition accumulate ::
  "people \<Rightarrow> (string set \<times> string set \<times> string set) list \<Rightarrow> probabilities \<Rightarrow> probabilities" where
  "accumulate people hs probabilities =
     fold (\<lambda>(one_gene, two_genes, have_trait) probs.
        update probs one_gene two_genes have_trait
          (joint_probability people one_gene two_genes have_trait))
       hs probabilities"



section \<open>Example inputs\<close>

definition harry_family :: people where
  "harry_family =
     [(''Harry'', \<lparr>name = ''Harry'', mother = Some ''Lily'', father = Some ''James'',
                   trait = Some True\<rparr>),
      (''James'', \<lparr>name = ''James'', mother = None, father = None, trait = Some True\<rparr>),
      (''Lily'', \<lparr>name = ''Lily'', mother = None, father = None, trait = Some False\<rparr>)]"

definition example_probabilities :: probabilities where
  "example_probabilities =
     [(''Harry'', zero_distribution), (''James'', zero_distribution),
      (''Lily'', zero_distribution)]"

text \<open>A person whose row names a mother that is no person and no father at all.\<close>

definition lone_parent :: people where
  "lone_parent =
     [(''A'', \<lparr>name = ''A'', mother = Some ''B'', father = None, trait = Some True\<rparr>)]"





text \<open>The accumulated buckets \<^verbatim>\<open>{2: 2, 1: 1, 0: 1}\<close> and \<^verbatim>\<open>{True: 1, False: 3}\<close>.\<close>

definition unnormalized :: probabilities where
  "unnormalized =
     [(''A'', \<lparr>gene_p = (\<lambda>g. case g of Two \<Rightarrow> 2 | One \<Rightarrow> 1 | Zero \<Rightarrow> 1),
               trait_p = (\<lambda>t. if t then 1 else 3)\<rparr>)]"

section \<open>The joint probability as the specification words it\<close>

text \<open>
  The gene count a hypothesis gives a person: 2 in the two-gene set, 1 in the one-gene set,
  else 0. A parent that is not recorded is in neither set.
\<close>

definition genes_of :: "string set \<Rightarrow> string set \<Rightarrow> string \<Rightarrow> gene_count" where
  "genes_of one_gene two_genes person =
     (if person \<in> two_genes then Two else if person \<in> one_gene then One else Zero)"

definition parent_genes :: "string set \<Rightarrow> string set \<Rightarrow> string option \<Rightarrow> gene_count" where
  "parent_genes one_gene two_genes parent =
     (case parent of None \<Rightarrow> Zero | Some n \<Rightarrow> genes_of one_gene two_genes n)"

text \<open>The pass probability of a parent, from the parent's own gene count.\<close>

definition pass_probability :: "gene_count \<Rightarrow> real" where
  "pass_probability g =
     (case g of Two \<Rightarrow> 1 - PROBS_mutation | One \<Rightarrow> 0.5 | Zero \<Rightarrow> PROBS_mutation)"

text \<open>The probability of a child's gene count, from the two pass probabilities.\<close>

definition child_probability :: "gene_count \<Rightarrow> real \<Rightarrow> real \<Rightarrow> real" where
  "child_probability g pass_mother pass_father =
     (case g of
        Two \<Rightarrow> pass_mother * pass_father
      | One \<Rightarrow> pass_mother * (1 - pass_father) + (1 - pass_mother) * pass_father
      | Zero \<Rightarrow> (1 - pass_mother) * (1 - pass_father))"

definition founder :: "person \<Rightarrow> bool" where
  "founder r = (mother r = None \<and> father r = None)"

definition gene_count_probability ::
  "string set \<Rightarrow> string set \<Rightarrow> string \<Rightarrow> person \<Rightarrow> real" where
  "gene_count_probability one_gene two_genes person r =
     (if founder r then PROBS_gene (genes_of one_gene two_genes person)
      else child_probability (genes_of one_gene two_genes person)
             (pass_probability (parent_genes one_gene two_genes (mother r)))
             (pass_probability (parent_genes one_gene two_genes (father r))))"

definition person_probability ::
  "string set \<Rightarrow> string set \<Rightarrow> string set \<Rightarrow> string \<Rightarrow> person \<Rightarrow> real" where
  "person_probability one_gene two_genes have_trait person r =
     gene_count_probability one_gene two_genes person r *
     PROBS_trait (genes_of one_gene two_genes person) (person \<in> have_trait)"

text \<open>A distribution with each bucket divided by the sum of its dictionary.\<close>

definition scaled :: "distribution \<Rightarrow> distribution" where
  "scaled d =
     d\<lparr>gene_p := (\<lambda>g. gene_p d g / gene_sum d), trait_p := (\<lambda>t. trait_p d t / trait_sum d)\<rparr>"


section \<open>Sums over the hypothesis space\<close>







section \<open>The two copies of a person, one from each parent\<close>









section \<open>The evaluator computes the product of the per-person probabilities\<close>

lemma fold_times: "fold (\<lambda>x (acc::real). acc * f x) xs a = a * prod_list (map f xs)"
  by (induction xs arbitrary: a) (simp_all add: mult.assoc)

lemma joint_probability_list:
  "joint_probability people one_gene two_genes have_trait =
     (\<Prod>(person, r) \<leftarrow> people. person_probability one_gene two_genes have_trait person r)"
proof -
  have "joint_probability people one_gene two_genes have_trait =
     fold (\<lambda>x acc. acc *
             (case x of (person, r) \<Rightarrow>
                person_probability one_gene two_genes have_trait person r)) people 1"
    unfolding joint_probability_def
    by (rule arg_cong[where f="\<lambda>f. fold f people 1"])
       (auto simp: fun_eq_iff person_probability_def gene_count_probability_def founder_def
          Let_def genes_of_def parent_genes_def pass_probability_def child_probability_def
          is_in_def split: option.splits)
  then show ?thesis by (simp add: fold_times)
qed

text \<open>
  Claim C1. For every family and every hypothesis, \<^verbatim>\<open>joint_probability\<close> returns the
  product, over the persons, of the gene-count probability (the prior for a founder, the
  combination of the parents' pass probabilities otherwise) and the trait probability.
\<close>

theorem joint_probability_product:
  "joint_probability people one_gene two_genes have_trait =
     (\<Prod>(person, r) \<leftarrow> people. person_probability one_gene two_genes have_trait person r)"
  by (rule joint_probability_list)

text \<open>
  Claim C5. For Harry, James and Lily and the hypothesis one-gene = {Harry},
  two-gene = {James}, have-trait = {Harry, James}, the claimed value 0.0026643247488 is not
  what \<^verbatim>\<open>joint_probability\<close> returns.
\<close>

theorem joint_probability_harry_counterexample:
  "joint_probability harry_family {''Harry''} {''James''} {''Harry'', ''James''}
     \<noteq> 0.0026643247488"
  by (simp add: joint_probability_def harry_family_def is_in_def PROBS_gene_def
        PROBS_trait_def PROBS_mutation_def)

text \<open>
  Claim C5, amended. For that family and that hypothesis \<^verbatim>\<open>joint_probability\<close>
  returns 0.0033909587712, in exact arithmetic (0.9802 * 0.56 for Harry, 0.01 * 0.65 for James,
  0.96 * 0.99 for Lily).
\<close>

theorem joint_probability_harry:
  "joint_probability harry_family {''Harry''} {''James''} {''Harry'', ''James''}
     = 0.0033909587712"
  by (simp add: joint_probability_def harry_family_def is_in_def PROBS_gene_def
        PROBS_trait_def PROBS_mutation_def)

section \<open>The accumulator\<close>

text \<open>
  Claim C10. \<^verbatim>\<open>update\<close> keeps the persons, and for every person adds \<open>p\<close> to the gene
  bucket of the person's gene count under the hypothesis (the zero bucket for a person in
  neither gene set) and to the trait bucket of the person's membership in the trait set,
  and leaves every other bucket as it was.
\<close>

theorem update_frame:
  "length (update probabilities one_gene two_genes have_trait p) = length probabilities \<and>
   (\<forall>i < length probabilities.
      fst (update probabilities one_gene two_genes have_trait p ! i) = fst (probabilities ! i) \<and>
      (\<forall>g. gene_p (snd (update probabilities one_gene two_genes have_trait p ! i)) g =
         gene_p (snd (probabilities ! i)) g +
         (if g = genes_of one_gene two_genes (fst (probabilities ! i)) then p else 0)) \<and>
      (\<forall>t. trait_p (snd (update probabilities one_gene two_genes have_trait p ! i)) t =
         trait_p (snd (probabilities ! i)) t +
         (if t = (fst (probabilities ! i) \<in> have_trait) then p else 0)))"
  by (auto simp: update_def genes_of_def Let_def split: prod.splits)

theorem update_frame_witness:
  "length (update example_probabilities {''Harry''} {''James''} {''Harry'', ''James''} 0.02) = 3 \<and>
   (2::nat) < length example_probabilities \<and>
   fst (update example_probabilities {''Harry''} {''James''} {''Harry'', ''James''} 0.02 ! 2)
     = ''Lily'' \<and>
   gene_p (snd (update example_probabilities {''Harry''} {''James''} {''Harry'', ''James''} 0.02 ! 2))
     Zero = 0.02 \<and>
   gene_p (snd (update example_probabilities {''Harry''} {''James''} {''Harry'', ''James''} 0.02 ! 2))
     One = 0 \<and>
   trait_p (snd (update example_probabilities {''Harry''} {''James''} {''Harry'', ''James''} 0.02 ! 2))
     False = 0.02"
  using update_frame [of example_probabilities "{''Harry''}" "{''James''}"
      "{''Harry'', ''James''}" "0.02"]
  by (simp add: example_probabilities_def zero_distribution_def genes_of_def)

text \<open>
  Claim C7. After \<^verbatim>\<open>update\<close> with \<open>p = 0.02\<close> for one-gene = {Harry},
  two-gene = {James}, have-trait = {Harry, James} on the zero-initialised distributions of
  Harry, James and Lily, not every bucket other than Harry's gene[1] and trait[True] and
  James's gene[2] and trait[True] is 0: Lily, the third person, has 0.02 in her gene[0] bucket.
\<close>

theorem update_example_counterexample:
  "fst (update example_probabilities {''Harry''} {''James''} {''Harry'', ''James''} 0.02 ! 2)
     = ''Lily'' \<and>
   gene_p (snd (update example_probabilities {''Harry''} {''James''} {''Harry'', ''James''} 0.02 ! 2))
     Zero \<noteq> 0"
  by (simp add: update_def example_probabilities_def zero_distribution_def)

text \<open>
  Claim C7, amended. That call yields Harry.gene[1] = 0.02, James.gene[2] = 0.02,
  Harry.trait[True] = 0.02, James.trait[True] = 0.02, and also Lily.gene[0] = 0.02 and
  Lily.trait[False] = 0.02; every other bucket of every person is 0.
\<close>

theorem update_example:
  "update example_probabilities {''Harry''} {''James''} {''Harry'', ''James''} 0.02 =
     [(''Harry'', \<lparr>gene_p = (\<lambda>g. if g = One then 0.02 else 0),
                   trait_p = (\<lambda>t. if t then 0.02 else 0)\<rparr>),
      (''James'', \<lparr>gene_p = (\<lambda>g. if g = Two then 0.02 else 0),
                   trait_p = (\<lambda>t. if t then 0.02 else 0)\<rparr>),
      (''Lily'', \<lparr>gene_p = (\<lambda>g. if g = Zero then 0.02 else 0),
                  trait_p = (\<lambda>t. if t then 0 else 0.02)\<rparr>)]"
  by (auto simp add: update_def example_probabilities_def zero_distribution_def fun_eq_iff)

section \<open>The normaliser\<close>

lemma normalize_person_eq:
  "normalize_person d =
     (if gene_sum d = 0 \<or> trait_sum d = 0 then Inl ZeroDivisionError else Inr (scaled d))"
  by (simp add: normalize_person_def gene_sum_def trait_sum_def scaled_def Let_def)

lemma normalize_ok:
  "\<forall>(q, d) \<in> set probs. gene_sum d \<noteq> 0 \<and> trait_sum d \<noteq> 0 \<Longrightarrow>
     normalize probs = Inr (map (\<lambda>(q, d). (q, scaled d)) probs)"
  by (induction probs) (auto simp: normalize_person_eq)

lemma normalize_fail:
  "(q, d) \<in> set probs \<Longrightarrow> gene_sum d = 0 \<or> trait_sum d = 0 \<Longrightarrow>
     normalize probs = Inl ZeroDivisionError"
proof (induction probs)
  case Nil
  then show ?case by simp
next
  case (Cons a probs)
  obtain q' d' where a: "a = (q', d')" by (cases a)
  show ?case
  proof (cases "gene_sum d' = 0 \<or> trait_sum d' = 0")
    case True
    then show ?thesis using a by (simp add: normalize_person_eq)
  next
    case False
    then have "(q, d) \<in> set probs" using Cons.prems a by auto
    then have "normalize probs = Inl ZeroDivisionError" using Cons by blast
    then show ?thesis using a False by (simp add: normalize_person_eq)
  qed
qed

lemma gene_sum_scaled: "gene_sum d \<noteq> 0 \<Longrightarrow> gene_sum (scaled d) = 1"
  by (simp add: scaled_def gene_sum_def add_divide_distrib[symmetric])

lemma trait_sum_scaled: "trait_sum d \<noteq> 0 \<Longrightarrow> trait_sum (scaled d) = 1"
  by (simp add: scaled_def trait_sum_def add_divide_distrib[symmetric])

text \<open>
  Claim C2. When the gene buckets and the trait buckets of every person have a non-zero sum,
  \<^verbatim>\<open>normalize\<close> returns; it keeps the persons; afterwards the gene buckets of every
  person sum to 1 and so do the trait buckets, within \<open>10\<^sup>-\<^sup>9\<close>; and every bucket is the
  accumulated bucket divided by the sum of its own dictionary, so that the proportions within
  a distribution are kept.
\<close>

theorem normalize_sums_to_one:
  assumes "\<forall>(q, d) \<in> set probabilities. gene_sum d \<noteq> 0 \<and> trait_sum d \<noteq> 0"
  shows "\<exists>probs'. normalize probabilities = Inr probs' \<and>
     length probs' = length probabilities \<and>
     (\<forall>i < length probabilities.
        fst (probs' ! i) = fst (probabilities ! i) \<and>
        \<bar>gene_sum (snd (probs' ! i)) - 1\<bar> \<le> 1 / 10 ^ 9 \<and>
        \<bar>trait_sum (snd (probs' ! i)) - 1\<bar> \<le> 1 / 10 ^ 9 \<and>
        (\<forall>g. gene_p (snd (probs' ! i)) g =
           gene_p (snd (probabilities ! i)) g / gene_sum (snd (probabilities ! i))) \<and>
        (\<forall>t. trait_p (snd (probs' ! i)) t =
           trait_p (snd (probabilities ! i)) t / trait_sum (snd (probabilities ! i))))"
proof -
  have r: "normalize probabilities = Inr (map (\<lambda>(q, d). (q, scaled d)) probabilities)"
    using assms by (rule normalize_ok)
  have "fst (map (\<lambda>(q, d). (q, scaled d)) probabilities ! i) = fst (probabilities ! i) \<and>
        \<bar>gene_sum (snd (map (\<lambda>(q, d). (q, scaled d)) probabilities ! i)) - 1\<bar> \<le> 1 / 10 ^ 9 \<and>
        \<bar>trait_sum (snd (map (\<lambda>(q, d). (q, scaled d)) probabilities ! i)) - 1\<bar> \<le> 1 / 10 ^ 9 \<and>
        (\<forall>g. gene_p (snd (map (\<lambda>(q, d). (q, scaled d)) probabilities ! i)) g =
           gene_p (snd (probabilities ! i)) g / gene_sum (snd (probabilities ! i))) \<and>
        (\<forall>t. trait_p (snd (map (\<lambda>(q, d). (q, scaled d)) probabilities ! i)) t =
           trait_p (snd (probabilities ! i)) t / trait_sum (snd (probabilities ! i)))"
    if i: "i < length probabilities" for i
  proof -
    obtain q d where qd: "probabilities ! i = (q, d)" by (cases "probabilities ! i")
    have "(q, d) \<in> set probabilities" using i qd by (metis nth_mem)
    then have nz: "gene_sum d \<noteq> 0" "trait_sum d \<noteq> 0" using assms by auto
    have g: "gene_sum (scaled d) = 1" using nz(1) by (rule gene_sum_scaled)
    have t: "trait_sum (scaled d) = 1" using nz(2) by (rule trait_sum_scaled)
    show ?thesis using i qd g t by (simp add: scaled_def)
  qed
  then show ?thesis using r by auto
qed

theorem normalize_sums_to_one_witness:
  "gene_sum (snd (unnormalized ! 0)) \<noteq> 0 \<and> trait_sum (snd (unnormalized ! 0)) \<noteq> 0 \<and>
   length unnormalized = 1 \<and>
   (\<exists>probs'. normalize unnormalized = Inr probs' \<and>
      gene_p (snd (probs' ! 0)) Two = 1 / 2 \<and> gene_p (snd (probs' ! 0)) One = 1 / 4 \<and>
      gene_p (snd (probs' ! 0)) Zero = 1 / 4 \<and> trait_p (snd (probs' ! 0)) True = 1 / 4 \<and>
      \<bar>gene_sum (snd (probs' ! 0)) - 1\<bar> \<le> 1 / 10 ^ 9)"
proof -
  have h: "\<forall>(q, d) \<in> set unnormalized. gene_sum d \<noteq> 0 \<and> trait_sum d \<noteq> 0"
    by (simp add: unnormalized_def gene_sum_def trait_sum_def)
  from normalize_sums_to_one [OF h] obtain probs' where
    p: "normalize unnormalized = Inr probs'"
    and q: "\<forall>i < length unnormalized.
        fst (probs' ! i) = fst (unnormalized ! i) \<and>
        \<bar>gene_sum (snd (probs' ! i)) - 1\<bar> \<le> 1 / 10 ^ 9 \<and>
        \<bar>trait_sum (snd (probs' ! i)) - 1\<bar> \<le> 1 / 10 ^ 9 \<and>
        (\<forall>g. gene_p (snd (probs' ! i)) g =
           gene_p (snd (unnormalized ! i)) g / gene_sum (snd (unnormalized ! i))) \<and>
        (\<forall>t. trait_p (snd (probs' ! i)) t =
           trait_p (snd (unnormalized ! i)) t / trait_sum (snd (unnormalized ! i)))"
    by blast
  have "(0::nat) < length unnormalized" by (simp add: unnormalized_def)
  with q have "\<bar>gene_sum (snd (probs' ! 0)) - 1\<bar> \<le> 1 / 10 ^ 9 \<and>
        (\<forall>g. gene_p (snd (probs' ! 0)) g =
           gene_p (snd (unnormalized ! 0)) g / gene_sum (snd (unnormalized ! 0))) \<and>
        (\<forall>t. trait_p (snd (probs' ! 0)) t =
           trait_p (snd (unnormalized ! 0)) t / trait_sum (snd (unnormalized ! 0)))"
    by blast
  then have "\<bar>gene_sum (snd (probs' ! 0)) - 1\<bar> \<le> 1 / 10 ^ 9"
    and "gene_p (snd (probs' ! 0)) Two =
           gene_p (snd (unnormalized ! 0)) Two / gene_sum (snd (unnormalized ! 0))"
    and "gene_p (snd (probs' ! 0)) One =
           gene_p (snd (unnormalized ! 0)) One / gene_sum (snd (unnormalized ! 0))"
    and "gene_p (snd (probs' ! 0)) Zero =
           gene_p (snd (unnormalized ! 0)) Zero / gene_sum (snd (unnormalized ! 0))"
    and "trait_p (snd (probs' ! 0)) True =
           trait_p (snd (unnormalized ! 0)) True / trait_sum (snd (unnormalized ! 0))"
    by blast+
  then have "gene_p (snd (probs' ! 0)) Two = 1 / 2 \<and> gene_p (snd (probs' ! 0)) One = 1 / 4 \<and>
      gene_p (snd (probs' ! 0)) Zero = 1 / 4 \<and> trait_p (snd (probs' ! 0)) True = 1 / 4 \<and>
      \<bar>gene_sum (snd (probs' ! 0)) - 1\<bar> \<le> 1 / 10 ^ 9"
    by (simp add: unnormalized_def gene_sum_def trait_sum_def)
  moreover have "gene_sum (snd (unnormalized ! 0)) \<noteq> 0 \<and>
      trait_sum (snd (unnormalized ! 0)) \<noteq> 0 \<and> length unnormalized = 1"
    by (simp add: unnormalized_def gene_sum_def trait_sum_def)
  ultimately show ?thesis using p by blast
qed

text \<open>
  Claim C8. When no hypothesis reaches the accumulator (the loop body of \<^verbatim>\<open>main\<close>
  runs for the empty list of hypotheses) and there is at least one person, every person's
  gene buckets and trait buckets still sum to zero when \<^verbatim>\<open>normalize\<close> is reached,
  and \<^verbatim>\<open>normalize\<close> ends with \<^verbatim>\<open>ZeroDivisionError\<close> instead of returning
  distributions.
\<close>

theorem normalize_empty_space_fails:
  assumes "people \<noteq> []"
  shows "(\<forall>(q, d) \<in> set (accumulate people [] (init_probabilities people)).
            gene_sum d = 0 \<and> trait_sum d = 0) \<and>
         normalize (accumulate people [] (init_probabilities people)) = Inl ZeroDivisionError"
proof -
  have acc: "accumulate people [] (init_probabilities people) = init_probabilities people"
    by (simp add: accumulate_def)
  have z: "\<forall>(q, d) \<in> set (init_probabilities people). gene_sum d = 0 \<and> trait_sum d = 0"
    by (auto simp: init_probabilities_def zero_distribution_def gene_sum_def trait_sum_def)
  obtain q r rest where p: "people = (q, r) # rest" using assms by (cases people) auto
  have "(q, zero_distribution) \<in> set (init_probabilities people)"
    by (simp add: p init_probabilities_def)
  moreover have "gene_sum zero_distribution = 0"
    by (simp add: zero_distribution_def gene_sum_def)
  ultimately have "normalize (init_probabilities people) = Inl ZeroDivisionError"
    using normalize_fail by blast
  then show ?thesis using acc z by simp
qed

theorem normalize_empty_space_fails_witness:
  "lone_parent \<noteq> [] \<and>
   normalize (accumulate lone_parent [] (init_probabilities lone_parent))
     = Inl ZeroDivisionError"
  using normalize_empty_space_fails [of lone_parent]
  by (simp add: lone_parent_def)

section \<open>The evidence filter\<close>


lemma powerset_sorted_empty: "powerset sorted_list_of_set ({}::string set) = [{}]"
  by (simp add: powerset_def)

lemma powerset_sorted_single: "powerset sorted_list_of_set {n::string} = [{}, {n}]"
  by (simp add: powerset_def)

lemma in_enumerate_keep:
  "(one_gene, two_genes, have_trait) \<in> set (enumerate_hypotheses to_list names keep)
     \<Longrightarrow> keep have_trait"
  by (auto simp: enumerate_hypotheses_def split: if_splits)

lemma hypotheses_lone_parent:
  "hypotheses sorted_list_of_set lone_parent =
     [({}, {}, {''A''}), ({}, {''A''}, {''A''}), ({''A''}, {}, {''A''})]"
  by (auto simp add: hypotheses_def enumerate_hypotheses_def lone_parent_def
        fails_evidence_def powerset_sorted_empty powerset_sorted_single)

text \<open>
  Claim C4. Every hypothesis for which the body of the innermost loop runs (the evaluation
  and the accumulation) gives every person with a known trait exactly that trait: the trait
  sets that disagree with a known trait are skipped before the gene loops start.
\<close>

theorem hypotheses_match_evidence:
  assumes "(one_gene, two_genes, have_trait) \<in> set (hypotheses to_list people)"
    and "(person, r) \<in> set people" and "trait r = Some b"
  shows "(person \<in> have_trait) = b"
proof -
  have "\<not> fails_evidence people have_trait"
    using assms(1) unfolding hypotheses_def by (rule in_enumerate_keep)
  then show ?thesis using assms(2,3) by (auto simp: fails_evidence_def list_ex_iff)
qed

theorem hypotheses_match_evidence_witness:
  "({}, {''A''}, {''A''}) \<in> set (hypotheses sorted_list_of_set lone_parent) \<and>
   (''A'', \<lparr>name = ''A'', mother = Some ''B'', father = None, trait = Some True\<rparr>)
     \<in> set lone_parent \<and>
   (''A'' \<in> {''A''}) = True"
proof -
  have h: "({}, {''A''}, {''A''}) \<in> set (hypotheses sorted_list_of_set lone_parent)"
    by (simp add: hypotheses_lone_parent)
  have m: "(''A'', \<lparr>name = ''A'', mother = Some ''B'', father = None, trait = Some True\<rparr>)
     \<in> set lone_parent"
    by (simp add: lone_parent_def)
  from hypotheses_match_evidence [OF h m] have "(''A'' \<in> {''A''}) = True" by simp
  with h m show ?thesis by blast
qed

section \<open>The subsets that powerset lists\<close>






section \<open>Adding one person to the hypothesis space\<close>













section \<open>The probability mass of the whole hypothesis space\<close>













section \<open>What the loop accumulates\<close>
















section \<open>The program accepts every family\<close>










section \<open>The sum over the slots does not depend on the parents' genes\<close>









section \<open>Summing out the traits and separating the founders\<close>







section \<open>From gene counts to slots\<close>








section \<open>The accumulated mass of a founder\<close>












end
